theory Spec2Isabelle
  imports Complex_Main
begin

section \<open>The command-line wrapper of the time-tree inference\<close>

text \<open>
  The development follows \<^verbatim>\<open>timetree_inference.py\<close>: option parsing, the loop that
  reads the dates file, the translation of the \<^verbatim>\<open>Tc\<close> option, the calls into the
  inference engine and the pass that decorates the tree before it is written.
  Python strings are modelled as \<^typ>\<open>string\<close>; the inputs considered are ASCII.
\<close>

subsection \<open>Python values\<close>

datatype py_error = IOError | TypeError | ValueError | EngineError

text \<open>
  A Python float is a finite double, an infinity or a NaN. A finite double is kept as the
  real number it denotes. Comparisons with a NaN are false.
\<close>

datatype pyfloat = Fin real | PosInf | NegInf | NaN

fun float_lt :: "pyfloat \<Rightarrow> pyfloat \<Rightarrow> bool" where
  "float_lt NaN b = False"
| "float_lt a NaN = False"
| "float_lt (Fin a) (Fin b) = (a < b)"
| "float_lt (Fin a) PosInf = True"
| "float_lt (Fin a) NegInf = False"
| "float_lt PosInf b = False"
| "float_lt NegInf NegInf = False"
| "float_lt NegInf b = True"

text \<open>The literal \<^verbatim>\<open>1e-5\<close>: the double nearest to it, \<open>5902958103587057 / 2^69\<close>.\<close>

definition lit_1e_5 :: pyfloat where
  "lit_1e_5 = Fin (5902958103587057 / 2 ^ 69)"

subsection \<open>String operations\<close>

text \<open>\<^verbatim>\<open>str.strip()\<close> removes the white space at both ends (ASCII white space of Python 3).\<close>

definition is_space :: "char \<Rightarrow> bool" where
  "is_space c = (let n = (of_char c :: nat) in (9 \<le> n \<and> n \<le> 13) \<or> (28 \<le> n \<and> n \<le> 32))"

definition strip :: "string \<Rightarrow> string" where
  "strip s = rev (dropWhile is_space (rev (dropWhile is_space s)))"

text \<open>\<^verbatim>\<open>s.split(sep)\<close> for a one-character separator: never empty.\<close>

fun split_on :: "char \<Rightarrow> string \<Rightarrow> string list" where
  "split_on c [] = [[]]"
| "split_on c (x # xs) =
     (if x = c then [] # split_on c xs
      else (case split_on c xs of [] \<Rightarrow> [[x]] | w # ws \<Rightarrow> (x # w) # ws))"

text \<open>\<^verbatim>\<open>sep.join(parts)\<close>.\<close>

fun join :: "string \<Rightarrow> string list \<Rightarrow> string" where
  "join sep [] = []"
| "join sep [w] = w"
| "join sep (w # v # ws) = w @ sep @ join sep (v # ws)"

text \<open>Comparison of strings, \<^verbatim>\<open>a < b\<close>: lexicographic on the character codes.\<close>

fun str_lt :: "string \<Rightarrow> string \<Rightarrow> bool" where
  "str_lt [] [] = False"
| "str_lt [] (y # ys) = True"
| "str_lt (x # xs) [] = False"
| "str_lt (x # xs) (y # ys) =
     (if (of_char x :: nat) < of_char y then True
      else if (of_char y :: nat) < of_char x then False
      else str_lt xs ys)"

text \<open>\<^verbatim>\<open>str(n)\<close> of an integer, and \<^verbatim>\<open>'%03d' % n\<close> of a counter.\<close>

definition digit_char :: "nat \<Rightarrow> char" where
  "digit_char d = char_of (48 + d)"

fun str_nat :: "nat \<Rightarrow> string" where
  "str_nat n = (if n < 10 then [digit_char n] else str_nat (n div 10) @ [digit_char (n mod 10)])"

definition str_int :: "int \<Rightarrow> string" where
  "str_int i = (if i < 0 then CHR ''-'' # str_nat (nat (- i)) else str_nat (nat i))"

definition fmt_03d :: "nat \<Rightarrow> string" where
  "fmt_03d n = (let s = str_nat n in replicate (3 - length s) CHR ''0'' @ s)"

subsection \<open>Parameter parsing\<close>

text \<open>
  The value of \<^verbatim>\<open>--relax\<close>: \<^verbatim>\<open>False\<close> by default, the list of the given strings
  (\<^verbatim>\<open>nargs='*'\<close>), and \<^verbatim>\<open>True\<close> once the empty list has been replaced.
\<close>

datatype relax_value = RelaxFalse | RelaxTrue | RelaxList "string list"

record params =
  aln :: string
  tree :: string
  dates :: string
  infer_gtr :: bool
  reroot :: string
  optimize_branch_length :: bool
  keep_polytomies :: bool
  relax :: relax_value
  max_iter :: int
  verbose :: int
  Tc :: string
  plot :: bool

text \<open>
  An accepted command line gives the three required arguments and any number of
  occurrences of the optional ones, the values of \<^verbatim>\<open>type=int\<close> arguments already
  converted by the argument parser.
\<close>

datatype cli_opt =
    Opt_infer_gtr
  | Opt_reroot string
  | Opt_optimize_branch_length
  | Opt_keep_polytomies
  | Opt_relax "string list"
  | Opt_max_iter int
  | Opt_verbose int
  | Opt_Tc string
  | Opt_plot

text \<open>The declared defaults (lines 20 to 44).\<close>

definition defaults :: "string \<Rightarrow> string \<Rightarrow> string \<Rightarrow> params" where
  "defaults a t d =
     \<lparr> aln = a, tree = t, dates = d, infer_gtr = True, reroot = ''best'',
       optimize_branch_length = False, keep_polytomies = False, relax = RelaxFalse,
       max_iter = 2, verbose = 1, Tc = ''0.0'', plot = False \<rparr>"

text \<open>The declared actions: \<^verbatim>\<open>store_true\<close> for the flags, \<^verbatim>\<open>store\<close> otherwise.\<close>

fun apply_opt :: "params \<Rightarrow> cli_opt \<Rightarrow> params" where
  "apply_opt p Opt_infer_gtr = p\<lparr>infer_gtr := True\<rparr>"
| "apply_opt p (Opt_reroot s) = p\<lparr>reroot := s\<rparr>"
| "apply_opt p Opt_optimize_branch_length = p\<lparr>optimize_branch_length := True\<rparr>"
| "apply_opt p Opt_keep_polytomies = p\<lparr>keep_polytomies := True\<rparr>"
| "apply_opt p (Opt_relax ws) = p\<lparr>relax := RelaxList ws\<rparr>"
| "apply_opt p (Opt_max_iter n) = p\<lparr>max_iter := n\<rparr>"
| "apply_opt p (Opt_verbose n) = p\<lparr>verbose := n\<rparr>"
| "apply_opt p (Opt_Tc s) = p\<lparr>Tc := s\<rparr>"
| "apply_opt p Opt_plot = p\<lparr>plot := True\<rparr>"

text \<open>\<^verbatim>\<open>parser.parse_args()\<close> followed by lines 46 and 47.\<close>

definition parse_args :: "string \<Rightarrow> string \<Rightarrow> string \<Rightarrow> cli_opt list \<Rightarrow> params" where
  "parse_args a t d opts =
     (let p = foldl apply_opt (defaults a t d) opts
      in if relax p = RelaxList [] then p\<lparr>relax := RelaxTrue\<rparr> else p)"

subsection \<open>Parsing dates (lines 52 to 59)\<close>

text \<open>
  \<^verbatim>\<open>float\<close> is the built-in conversion of Python, a parameter \<open>fl\<close> of the model:
  \<open>None\<close> when it raises. One line of the file: a failed unpacking of the first two
  fields, or a failed conversion, is caught and the line is skipped.
\<close>

definition parse_date_line ::
  "(string \<Rightarrow> pyfloat option) \<Rightarrow> (string \<rightharpoonup> pyfloat) \<Rightarrow> string \<Rightarrow> (string \<rightharpoonup> pyfloat)" where
  "parse_date_line fl ds line =
     (case take 2 (split_on CHR '','' (strip line)) of
        [nm, dt] \<Rightarrow> (case fl dt of Some v \<Rightarrow> ds(nm \<mapsto> v) | None \<Rightarrow> ds)
      | _ \<Rightarrow> ds)"

definition parse_dates :: "(string \<Rightarrow> pyfloat option) \<Rightarrow> string list \<Rightarrow> (string \<rightharpoonup> pyfloat)" where
  "parse_dates fl lines = foldl (parse_date_line fl) Map.empty lines"

subsection \<open>Parsing options (lines 64 to 72)\<close>

datatype tc_value = TcNone | TcFloat pyfloat | TcStr string

definition parse_Tc :: "(string \<Rightarrow> pyfloat option) \<Rightarrow> string \<Rightarrow> tc_value" where
  "parse_Tc fl s =
     (case fl s of
        Some v \<Rightarrow> if float_lt v lit_1e_5 then TcNone else TcFloat v
      | None \<Rightarrow> if s \<in> set [''opt'', ''skyline''] then TcStr s else TcNone)"

subsection \<open>The arguments handed to the engine (lines 77 to 82)\<close>

record treetime_args =
  arg_dates :: "string \<rightharpoonup> pyfloat"
  arg_tree :: string
  arg_aln :: string
  arg_gtr :: string
  arg_verbose :: int

record run_args =
  root :: string
  relaxed_clock :: relax_value
  resolve_polytomies :: bool
  run_Tc :: tc_value
  run_max_iter :: int
  use_input_branch_length :: bool

definition mk_treetime_args :: "(string \<rightharpoonup> pyfloat) \<Rightarrow> params \<Rightarrow> treetime_args" where
  "mk_treetime_args ds p =
     \<lparr> arg_dates = ds, arg_tree = tree p, arg_aln = aln p, arg_gtr = ''JC69'',
       arg_verbose = verbose p \<rparr>"

definition mk_run_args :: "tc_value \<Rightarrow> params \<Rightarrow> run_args" where
  "mk_run_args tc p =
     \<lparr> root = reroot p, relaxed_clock = relax p,
       resolve_polytomies = (\<not> keep_polytomies p),
       run_Tc = tc, run_max_iter = max_iter p,
       use_input_branch_length = (\<not> optimize_branch_length p) \<rparr>"

subsection \<open>Decorating the tree (lines 120 to 131)\<close>

text \<open>
  A node of the tree with the attributes the pass reads or writes; every other attribute
  is in the extension of the record. \<open>up\<close> is the parent (\<open>None\<close> at the root),
  \<open>clades\<close> the children, both as indices into the sequence of nodes that
  \<^verbatim>\<open>find_clades()\<close> yields. A mutation is the ancestral residue, the position and
  the derived residue.
\<close>

type_synonym mutation = "string \<times> int \<times> string"

record node =
  up :: "nat option"
  clades :: "nat list"
  name :: "string option"
  confidence :: "pyfloat option"
  comment :: "string option"
  mutations :: "mutation list"

definition is_terminal :: "'a node_scheme \<Rightarrow> bool" where
  "is_terminal n = (clades n = [])"

definition mutation_str :: "mutation \<Rightarrow> string" where
  "mutation_str m = (case m of (a, pos, d) \<Rightarrow> a @ str_int pos @ d)"

definition mutations_comment :: "mutation list \<Rightarrow> string" where
  "mutations_comment ms = ''&mutations=\"'' @ join ''_'' (map mutation_str ms) @ ''\"''"

text \<open>Line 128: the name that replaces a long name of a leaf.\<close>

definition truncated_name :: "string \<Rightarrow> nat \<Rightarrow> string" where
  "truncated_name nm terminal_count = take 35 nm @ ''_'' @ fmt_03d terminal_count"

text \<open>Lines 130 and 131.\<close>

definition set_comment :: "'a node_scheme \<Rightarrow> 'a node_scheme" where
  "set_comment n =
     (if length (mutations n) \<noteq> 0 then n\<lparr>comment := Some (mutations_comment (mutations n))\<rparr>
      else n)"

text \<open>
  The body of the loop on one node, with the counter of truncated leaves. The length of
  the name of a leaf without a name raises \<^verbatim>\<open>TypeError\<close>.
\<close>

definition decorate_node ::
  "string \<Rightarrow> nat \<Rightarrow> 'a node_scheme \<Rightarrow> py_error + ('a node_scheme \<times> nat)" where
  "decorate_node bioversion terminal_count n =
     (if up n = None then Inr (n, terminal_count)
      else
        let n1 = n\<lparr>confidence := None\<rparr> in
        if is_terminal n1 then
          (case name n1 of
             None \<Rightarrow> Inl TypeError
           | Some nm \<Rightarrow>
               if 40 < length nm \<and> str_lt bioversion ''1.69''
               then Inr (set_comment (n1\<lparr>name := Some (truncated_name nm terminal_count)\<rparr>),
                         terminal_count + 1)
               else Inr (set_comment n1, terminal_count))
        else Inr (set_comment n1, terminal_count))"

fun decorate_loop ::
  "string \<Rightarrow> nat \<Rightarrow> 'a node_scheme list \<Rightarrow> py_error + 'a node_scheme list" where
  "decorate_loop bioversion terminal_count [] = Inr []"
| "decorate_loop bioversion terminal_count (n # ns) =
     (case decorate_node bioversion terminal_count n of
        Inl e \<Rightarrow> Inl e
      | Inr (n', terminal_count') \<Rightarrow>
          (case decorate_loop bioversion terminal_count' ns of
             Inl e \<Rightarrow> Inl e
           | Inr ns' \<Rightarrow> Inr (n' # ns')))"

definition decorate_tree :: "string \<Rightarrow> 'a node_scheme list \<Rightarrow> py_error + 'a node_scheme list" where
  "decorate_tree bioversion ns = decorate_loop bioversion 0 ns"

text \<open>
  The nodes whose name the pass replaces (the tests of lines 122 and 127), and the value of
  the counter when the loop reaches the node of index \<open>i\<close>.
\<close>

definition needs_truncation :: "string \<Rightarrow> 'a node_scheme \<Rightarrow> bool" where
  "needs_truncation bv n =
     (up n \<noteq> None \<and> is_terminal n \<and>
      (case name n of None \<Rightarrow> False | Some nm \<Rightarrow> 40 < length nm) \<and> str_lt bv ''1.69'')"

definition truncated_before :: "string \<Rightarrow> 'a node_scheme list \<Rightarrow> nat \<Rightarrow> nat" where
  "truncated_before bv ns i = length (filter (needs_truncation bv) (take i ns))"

subsection \<open>The program\<close>

text \<open>
  What the script calls and does not define is a parameter: the conversion
  \<^verbatim>\<open>float\<close>, the dates file, the version string of the library, and the engine
  (\<^verbatim>\<open>TreeTime\<close>, of state \<open>'e\<close>), each call returning normally (\<open>Inr\<close>) or
  raising (\<open>Inl\<close>).
\<close>

record ('e, 'a) env =
  py_float :: "string \<Rightarrow> pyfloat option"
  open_lines :: "string \<Rightarrow> py_error + string list"
  bioversion :: string
  new_TreeTime :: "treetime_args \<Rightarrow> py_error + 'e"
  engine_run :: "'e \<Rightarrow> run_args \<Rightarrow> py_error + 'e"
  skyline_inferred :: "'e \<Rightarrow> int \<Rightarrow> py_error + (pyfloat list \<times> pyfloat list)"
  plot_vs_years :: "'e \<Rightarrow> py_error + 'e"
  branch_length_to_years :: "'e \<Rightarrow> py_error + 'e"
  find_clades :: "'e \<Rightarrow> 'a node_scheme list"

text \<open>What the program prints and writes, in order.\<close>

datatype ('e, 'a) effect =
    Print string
  | Print_gtr 'e
  | Print_date2dist 'e
  | Print_row pyfloat pyfloat
  | Savefig string
  | Write_fasta 'e string
  | Write_nexus "'a node_scheme list" string

text \<open>A stage of the program: its output, and its value or the error that ends the run.\<close>

type_synonym ('e, 'a, 'r) stage = "('e, 'a) effect list \<times> (py_error + 'r)"

definition and_then ::
  "('e, 'a, 'r) stage \<Rightarrow> ('r \<Rightarrow> ('e, 'a, 's) stage) \<Rightarrow> ('e, 'a, 's) stage" where
  "and_then m f =
     (case m of
        (out, Inl err) \<Rightarrow> (out, Inl err)
      | (out, Inr x) \<Rightarrow> (case f x of (out', r) \<Rightarrow> (out @ out', r)))"

definition call :: "py_error + 'r \<Rightarrow> ('e, 'a, 'r) stage" where
  "call r = ([], r)"

definition emit :: "('e, 'a) effect list \<Rightarrow> ('e, 'a, unit) stage" where
  "emit out = (out, Inr ())"

text \<open>Lines 52 to 82: the dates, the option \<^verbatim>\<open>Tc\<close>, the construction and the run.\<close>

definition setup_and_run :: "('e, 'a) env \<Rightarrow> params \<Rightarrow> ('e, 'a, tc_value \<times> 'e) stage" where
  "setup_and_run env p =
     and_then (call (open_lines env (dates p))) (\<lambda>lines.
       let ds = parse_dates (py_float env) lines;
           tc = parse_Tc (py_float env) (Tc p)
       in and_then (call (new_TreeTime env (mk_treetime_args ds p))) (\<lambda>myTree.
          and_then (call (engine_run env myTree (mk_run_args tc p))) (\<lambda>myTree'.
          call (Inr (tc, myTree')))))"

text \<open>Lines 87 to 91.\<close>

definition report_model :: "params \<Rightarrow> 'e \<Rightarrow> ('e, 'a, unit) stage" where
  "report_model p myTree =
     emit ((if infer_gtr p then [Print (CHR 0x0A # ''Inferred GTR model:''), Print_gtr myTree]
            else []) @ [Print_date2dist myTree])"

text \<open>Lines 93 to 97: one row for every pair of \<^verbatim>\<open>zip(skyline.x, skyline.y)\<close>.\<close>

definition report_skyline :: "('e, 'a) env \<Rightarrow> tc_value \<Rightarrow> 'e \<Rightarrow> ('e, 'a, unit) stage" where
  "report_skyline env tc myTree =
     (if tc = TcStr ''skyline'' then
        and_then (call (skyline_inferred env myTree 50)) (\<lambda>skyline.
          emit (Print ''inferred skyline assuming 50 generations per year:''
                # map (\<lambda>(x, y). Print_row x y) (zip (fst skyline) (snd skyline))))
      else emit [])"

text \<open>Lines 100 and 134.\<close>

definition base_name :: "string \<Rightarrow> string" where
  "base_name path = join ''.'' (butlast (split_on CHR ''.'' (last (split_on CHR ''/'' path))))"

text \<open>Lines 102 to 114.\<close>

definition plot_or_convert :: "('e, 'a) env \<Rightarrow> params \<Rightarrow> 'e \<Rightarrow> ('e, 'a, 'e) stage" where
  "plot_or_convert env p myTree =
     (if plot p then
        and_then (call (plot_vs_years env myTree)) (\<lambda>myTree'.
        and_then (emit [Savefig (base_name (aln p) @ ''_tree.pdf'')]) (\<lambda>_.
        call (Inr myTree')))
      else call (branch_length_to_years env myTree))"

text \<open>Lines 117 to 135.\<close>

definition write_results :: "('e, 'a) env \<Rightarrow> params \<Rightarrow> 'e \<Rightarrow> ('e, 'a, unit) stage" where
  "write_results env p myTree =
     and_then (emit [Write_fasta myTree (base_name (aln p) @ ''_ancestral.fasta'')]) (\<lambda>_.
     and_then (call (decorate_tree (bioversion env) (find_clades env myTree))) (\<lambda>ns.
     emit [Write_nexus ns (base_name (tree p) @ ''_timetree.nexus'')]))"

definition main_params :: "('e, 'a) env \<Rightarrow> params \<Rightarrow> ('e, 'a, unit) stage" where
  "main_params env p =
     and_then (setup_and_run env p) (\<lambda>(tc, myTree).
     and_then (report_model p myTree) (\<lambda>_.
     and_then (report_skyline env tc myTree) (\<lambda>_.
     and_then (plot_or_convert env p myTree) (\<lambda>myTree'.
     write_results env p myTree'))))"

definition main :: "('e, 'a) env \<Rightarrow> string \<Rightarrow> string \<Rightarrow> string \<Rightarrow> cli_opt list \<Rightarrow> ('e, 'a, unit) stage" where
  "main env a t d opts = main_params env (parse_args a t d opts)"

subsection \<open>The engine, as the specification describes it\<close>

text \<open>
  The class \<^verbatim>\<open>TreeTime\<close> is imported by the script and is not among the sources. The
  two behaviours of its method \<^verbatim>\<open>run\<close> that are needed below are modelled from the
  specification.
\<close>

text \<open>
  Modelled from the spec: the two final states of the iteration state machine of
  \<^verbatim>\<open>TreeTime.run\<close> (section 4.5), which is missing from the sources.
\<close>

datatype run_status = CONVERGED | MAX_ITER_REACHED

text \<open>
  Modelled from the spec: what \<^verbatim>\<open>TreeTime.run\<close> (missing) returns, its best current
  state, with the flag of non-convergence and the number of outer iterations performed.
\<close>

record 's run_result =
  status :: run_status
  iterations :: nat
  final_state :: 's

text \<open>
  Modelled from the spec: the outer loop of \<^verbatim>\<open>TreeTime.run\<close> (missing). Each outer
  iteration is one application of \<open>iteration\<close>; the loop ends when the change between
  two iterations is below the tolerance (\<open>converged\<close>) or when \<^verbatim>\<open>max_iter\<close> iterations
  have been made, and then returns the current state. \<open>left\<close> counts the iterations
  that remain, \<open>n\<close> those that were made.
\<close>

fun outer_loop :: "('s \<Rightarrow> 's) \<Rightarrow> ('s \<Rightarrow> 's \<Rightarrow> bool) \<Rightarrow> nat \<Rightarrow> nat \<Rightarrow> 's \<Rightarrow> 's run_result" where
  "outer_loop iteration converged 0 n st =
     \<lparr> status = MAX_ITER_REACHED, iterations = n, final_state = st \<rparr>"
| "outer_loop iteration converged (Suc left) n st =
     (let st' = iteration st in
      if left = 0 then
        \<lparr> status = (if converged st st' then CONVERGED else MAX_ITER_REACHED),
          iterations = Suc n, final_state = st' \<rparr>
      else if converged st st' then
        \<lparr> status = CONVERGED, iterations = Suc n, final_state = st' \<rparr>
      else outer_loop iteration converged left (Suc n) st')"

text \<open>
  Modelled from the spec: \<^verbatim>\<open>TreeTime.run\<close> (missing) as far as the number of its outer
  iterations is concerned, for the value \<open>cap\<close> of \<^verbatim>\<open>max_iter\<close>.
\<close>

definition engine_iterate :: "('s \<Rightarrow> 's) \<Rightarrow> ('s \<Rightarrow> 's \<Rightarrow> bool) \<Rightarrow> int \<Rightarrow> 's \<Rightarrow> 's run_result" where
  "engine_iterate iteration converged cap st = outer_loop iteration converged (nat cap) 0 st"







subsection \<open>Example inputs\<close>

text \<open>
  A conversion that agrees with \<^verbatim>\<open>float\<close> on the strings of the examples, a dates
  file with one malformed line, a tree of three nodes, and an engine whose state is the
  list of the runs it was asked for.
\<close>

definition example_float :: "string \<Rightarrow> pyfloat option" where
  "example_float s =
     (if s = ''0.0'' then Some (Fin 0)
      else if s = ''0.5'' then Some (Fin (1 / 2))
      else if s = ''2012.5'' then Some (Fin (4025 / 2))
      else None)"

definition example_lines :: "string list" where
  "example_lines = [''A,2012.5'' @ [CHR 0x0A], ''B,notadate'' @ [CHR 0x0A]]"

definition long_name :: string where
  "long_name = ''A_Brisbane_10_2007_H3N2_segment4_isolate_X1''"

definition example_nodes :: "node list" where
  "example_nodes =
     [\<lparr> up = None, clades = [1, 2], name = None, confidence = Some (Fin 1),
        comment = None, mutations = [] \<rparr>,
      \<lparr> up = Some 0, clades = [], name = Some ''A'', confidence = Some (Fin 1),
        comment = None, mutations = [(''A'', 12, ''G''), (''C'', 7, ''T'')] \<rparr>,
      \<lparr> up = Some 0, clades = [], name = Some long_name, confidence = None,
        comment = Some ''old'', mutations = [] \<rparr>]"

definition example_env :: "(run_args list, unit) env" where
  "example_env =
     \<lparr> py_float = example_float,
       open_lines = (\<lambda>path. Inr example_lines),
       bioversion = ''1.68'',
       new_TreeTime = (\<lambda>args. Inr []),
       engine_run = (\<lambda>e ra. Inr (ra # e)),
       skyline_inferred = (\<lambda>e gen. Inr ([Fin 0, Fin 1], [Fin 2, Fin 3])),
       plot_vs_years = Inr,
       branch_length_to_years = Inr,
       find_clades = (\<lambda>e. example_nodes) \<rparr>"

definition example_params :: "cli_opt list \<Rightarrow> params" where
  "example_params opts = parse_args ''data/x.fasta'' ''data/x.nwk'' ''data/d.csv'' opts"

section \<open>Properties\<close>

declare str_nat.simps [simp del]

subsection \<open>Option parsing\<close>

lemma foldl_apply_opt_frame:
  "aln (foldl apply_opt p opts) = aln p"
  "tree (foldl apply_opt p opts) = tree p"
  "dates (foldl apply_opt p opts) = dates p"
proof (induction opts arbitrary: p)
  case Nil
  { case 1 show ?case by simp next
    case 2 show ?case by simp next
    case 3 show ?case by simp }
next
  case (Cons o1 opts)
  { case 1 show ?case using Cons.IH(1) by (cases o1) simp_all next
    case 2 show ?case using Cons.IH(2) by (cases o1) simp_all next
    case 3 show ?case using Cons.IH(3) by (cases o1) simp_all }
qed

lemma foldl_apply_opt_infer_gtr:
  "infer_gtr p \<Longrightarrow> infer_gtr (foldl apply_opt p opts)"
proof (induction opts arbitrary: p)
  case Nil
  then show ?case by simp
next
  case (Cons o1 opts)
  from Cons.prems have "infer_gtr (apply_opt p o1)" by (cases o1) simp_all
  then show ?case using Cons.IH by simp
qed



lemma foldl_apply_opt_Tc:
  "\<forall>s. Opt_Tc s \<notin> set opts \<Longrightarrow> Tc (foldl apply_opt p opts) = Tc p"
proof (induction opts arbitrary: p)
  case Nil
  then show ?case by simp
next
  case (Cons o1 opts)
  from Cons.prems have "Tc (apply_opt p o1) = Tc p" by (cases o1) auto
  moreover from Cons.prems have "\<forall>s. Opt_Tc s \<notin> set opts" by simp
  ultimately show ?case using Cons.IH by simp
qed

lemma foldl_apply_opt_max_iter:
  "\<forall>n. Opt_max_iter n \<notin> set opts \<Longrightarrow> max_iter (foldl apply_opt p opts) = max_iter p"
proof (induction opts arbitrary: p)
  case Nil
  then show ?case by simp
next
  case (Cons o1 opts)
  from Cons.prems have "max_iter (apply_opt p o1) = max_iter p" by (cases o1) auto
  moreover from Cons.prems have "\<forall>n. Opt_max_iter n \<notin> set opts" by simp
  ultimately show ?case using Cons.IH by simp
qed

lemma parse_args_infer_gtr: "infer_gtr (parse_args a t d opts)"
  by (simp add: parse_args_def Let_def foldl_apply_opt_infer_gtr defaults_def)



lemma parse_args_Tc_default:
  "\<forall>s. Opt_Tc s \<notin> set opts \<Longrightarrow> Tc (parse_args a t d opts) = ''0.0''"
  by (simp add: parse_args_def Let_def foldl_apply_opt_Tc defaults_def)

lemma parse_args_max_iter_default:
  "\<forall>n. Opt_max_iter n \<notin> set opts \<Longrightarrow> max_iter (parse_args a t d opts) = 2"
  by (simp add: parse_args_def Let_def foldl_apply_opt_max_iter defaults_def)

subsection \<open>Sequencing of the stages\<close>

lemma and_then_Inr: "and_then (out, Inr x) f = (out @ fst (f x), snd (f x))"
  by (simp add: and_then_def split: prod.splits)

lemma and_then_Inl: "and_then (out, Inl e) f = (out, Inl e)"
  by (simp add: and_then_def)

lemma setup_and_run_eq:
  assumes "open_lines env (dates p) = Inr lines"
    and "new_TreeTime env (mk_treetime_args (parse_dates (py_float env) lines) p) = Inr myTree"
    and "parse_Tc (py_float env) (Tc p) = tc"
  shows "setup_and_run env p =
           ([], case engine_run env myTree (mk_run_args tc p) of
                  Inl e \<Rightarrow> Inl e
                | Inr myTree' \<Rightarrow> Inr (tc, myTree'))"
  using assms
  by (simp add: setup_and_run_def and_then_def call_def Let_def split: sum.splits)

lemma setup_and_run_silent: "fst (setup_and_run env p) = []"
  by (simp add: setup_and_run_def and_then_def call_def Let_def split: sum.splits)

lemma parse_date_line_malformed:
  assumes "take 2 (split_on CHR '','' (strip line)) = [nm, dt]" and "fl dt = None"
  shows "parse_date_line fl ds line = ds"
  using assms by (simp add: parse_date_line_def)

lemma parse_dates_skip:
  assumes "take 2 (split_on CHR '','' (strip line)) = [nm, dt]" and "fl dt = None"
  shows "parse_dates fl (before @ line # after) = parse_dates fl (before @ after)"
  using assms by (simp add: parse_dates_def parse_date_line_malformed)

lemma stages_ignore_open_lines:
  "report_skyline (env\<lparr>open_lines := f\<rparr>) tc myTree = report_skyline env tc myTree"
  "plot_or_convert (env\<lparr>open_lines := f\<rparr>) p myTree = plot_or_convert env p myTree"
  "write_results (env\<lparr>open_lines := f\<rparr>) p myTree = write_results env p myTree"
  by (simp_all add: report_skyline_def plot_or_convert_def write_results_def)

lemma example_open: "open_lines example_env (dates (example_params opts)) = Inr example_lines"
  by (simp add: example_env_def)

lemma example_new:
  "new_TreeTime example_env (mk_treetime_args ds (example_params opts)) = Inr []"
  by (simp add: example_env_def)

lemma example_Tc_fast: "Tc (example_params [Opt_Tc ''fast'']) = ''fast''"
  by (simp add: example_params_def parse_args_def defaults_def)

lemma example_Tc_default: "Tc (example_params []) = ''0.0''"
  by (simp add: example_params_def parse_args_def defaults_def)

subsection \<open>Unsupported values of Tc\<close>

text \<open>
  Claim C1 says that an unsupported value of \<^verbatim>\<open>Tc\<close> is reported as a fatal
  configuration error before any inference runs. On the command line \<^verbatim>\<open>--Tc fast\<close>
  the value is neither a float nor \<^verbatim>\<open>opt\<close> or \<^verbatim>\<open>skyline\<close>, and the program
  runs the engine and ends without an error.
\<close>

theorem unsupported_Tc_counterexample:
  "py_float example_env ''fast'' = None \<and> ''fast'' \<notin> set [''opt'', ''skyline''] \<and>
   setup_and_run example_env (example_params [Opt_Tc ''fast'']) =
     ([], Inr (TcNone, [mk_run_args TcNone (example_params [Opt_Tc ''fast''])])) \<and>
   snd (main example_env ''data/x.fasta'' ''data/x.nwk'' ''data/d.csv'' [Opt_Tc ''fast'']) = Inr ()"
proof -
  have f: "py_float example_env ''fast'' = None"
    by (simp add: example_env_def example_float_def)
  have tc: "parse_Tc (py_float example_env) (Tc (example_params [Opt_Tc ''fast''])) = TcNone"
    using f by (simp add: example_Tc_fast parse_Tc_def)
  have s: "setup_and_run example_env (example_params [Opt_Tc ''fast'']) =
     ([], Inr (TcNone, [mk_run_args TcNone (example_params [Opt_Tc ''fast''])]))"
    using setup_and_run_eq [OF example_open example_new tc]
    by (simp add: example_env_def)
  have m: "snd (main example_env ''data/x.fasta'' ''data/x.nwk'' ''data/d.csv'' [Opt_Tc ''fast'']) = Inr ()"
    by code_simp
  show ?thesis using f s m by simp
qed

text \<open>
  Claim C1, as the code has it (lines 68 to 72): a value of \<^verbatim>\<open>Tc\<close> that is
  neither a float nor \<^verbatim>\<open>opt\<close> or \<^verbatim>\<open>skyline\<close> becomes \<^verbatim>\<open>None\<close>; no error is
  raised, and the engine is run with \<^verbatim>\<open>Tc=None\<close>.
\<close>

theorem unsupported_Tc_runs_without_coalescent:
  assumes "py_float env (Tc p) = None"
    and "Tc p \<notin> set [''opt'', ''skyline'']"
    and "open_lines env (dates p) = Inr lines"
    and "new_TreeTime env (mk_treetime_args (parse_dates (py_float env) lines) p) = Inr myTree"
  shows "parse_Tc (py_float env) (Tc p) = TcNone \<and>
         setup_and_run env p =
           ([], case engine_run env myTree (mk_run_args TcNone p) of
                  Inl e \<Rightarrow> Inl e
                | Inr myTree' \<Rightarrow> Inr (TcNone, myTree'))"
proof -
  have tc: "parse_Tc (py_float env) (Tc p) = TcNone"
    using assms(1,2) by (simp add: parse_Tc_def)
  show ?thesis using setup_and_run_eq [OF assms(3,4) tc] tc by simp
qed

text \<open>The theorem at the example inputs.\<close>

theorem unsupported_Tc_runs_without_coalescent_witness:
  "py_float example_env (Tc (example_params [Opt_Tc ''fast''])) = None \<and>
   Tc (example_params [Opt_Tc ''fast'']) \<notin> set [''opt'', ''skyline''] \<and>
   open_lines example_env (dates (example_params [Opt_Tc ''fast''])) = Inr example_lines \<and>
   new_TreeTime example_env
     (mk_treetime_args (parse_dates (py_float example_env) example_lines)
        (example_params [Opt_Tc ''fast''])) = Inr [] \<and>
   parse_Tc (py_float example_env) (Tc (example_params [Opt_Tc ''fast''])) = TcNone \<and>
   setup_and_run example_env (example_params [Opt_Tc ''fast'']) =
     ([], Inr (TcNone, [mk_run_args TcNone (example_params [Opt_Tc ''fast''])]))"
proof -
  have h1: "py_float example_env (Tc (example_params [Opt_Tc ''fast''])) = None"
    by (simp add: example_Tc_fast example_env_def example_float_def)
  have h2: "Tc (example_params [Opt_Tc ''fast'']) \<notin> set [''opt'', ''skyline'']"
    by (simp add: example_Tc_fast)
  note h3 = example_open [of "[Opt_Tc ''fast'']"]
  note h4 = example_new [of "parse_dates (py_float example_env) example_lines" "[Opt_Tc ''fast'']"]
  show ?thesis
    using h1 h2 h3 h4 unsupported_Tc_runs_without_coalescent [OF h1 h2 h3 h4]
    by (simp add: example_env_def)
qed

subsection \<open>Malformed dates\<close>

text \<open>
  Claim C2 says that a line of the dates file whose date is not a float is reported
  as a fatal configuration error naming the sample. With the line \<^verbatim>\<open>B,notadate\<close> in the
  file the program ends without an error; the sample \<^verbatim>\<open>B\<close> has no date.
\<close>

theorem malformed_date_counterexample:
  "open_lines example_env (dates (example_params [])) = Inr example_lines \<and>
   example_lines ! 1 = ''B,notadate'' @ [CHR 0x0A] \<and>
   py_float example_env ''notadate'' = None \<and>
   parse_dates (py_float example_env) example_lines ''B'' = None \<and>
   parse_dates (py_float example_env) example_lines ''A'' = Some (Fin (4025 / 2)) \<and>
   snd (main example_env ''data/x.fasta'' ''data/x.nwk'' ''data/d.csv'' []) = Inr ()"
proof -
  have f: "py_float example_env ''notadate'' = None"
    by (simp add: example_env_def example_float_def)
  have d: "parse_dates (py_float example_env) example_lines = [''A'' \<mapsto> Fin (4025 / 2)]"
    by (simp add: parse_dates_def parse_date_line_def example_lines_def strip_def is_space_def
        example_float_def example_env_def)
  have m: "snd (main example_env ''data/x.fasta'' ''data/x.nwk'' ''data/d.csv'' []) = Inr ()"
    by code_simp
  have l: "example_lines ! 1 = ''B,notadate'' @ [CHR 0x0A]"
    by (simp add: example_lines_def)
  show ?thesis using f m l example_open [of "[]"] by (simp add: d)
qed

text \<open>
  Claim C2, as the code has it (lines 55 to 59): a line whose date field is not a
  float is skipped. The dictionary of dates, and the whole run of the program, are those
  of the file without the line.
\<close>

theorem malformed_date_line_is_skipped:
  assumes "take 2 (split_on CHR '','' (strip line)) = [nm, dt]"
    and "py_float env dt = None"
    and "open_lines env (dates p) = Inr (before @ line # after)"
  shows "parse_dates (py_float env) (before @ line # after) = parse_dates (py_float env) (before @ after) \<and>
         main_params env p = main_params (env\<lparr>open_lines := (\<lambda>path. Inr (before @ after))\<rparr>) p"
proof -
  have eq: "parse_dates (py_float env) (before @ line # after) = parse_dates (py_float env) (before @ after)"
    using assms(1,2) by (rule parse_dates_skip)
  have "setup_and_run env p = setup_and_run (env\<lparr>open_lines := (\<lambda>path. Inr (before @ after))\<rparr>) p"
    using assms(3) eq by (simp add: setup_and_run_def and_then_def call_def Let_def)
  then show ?thesis using eq
    by (simp add: main_params_def stages_ignore_open_lines)
qed

text \<open>The theorem at the example inputs.\<close>

theorem malformed_date_line_is_skipped_witness:
  "take 2 (split_on CHR '','' (strip (''B,notadate'' @ [CHR 0x0A]))) = [''B'', ''notadate''] \<and>
   py_float example_env ''notadate'' = None \<and>
   open_lines example_env (dates (example_params [])) =
     Inr ([''A,2012.5'' @ [CHR 0x0A]] @ (''B,notadate'' @ [CHR 0x0A]) # []) \<and>
   parse_dates (py_float example_env) ([''A,2012.5'' @ [CHR 0x0A]] @ (''B,notadate'' @ [CHR 0x0A]) # []) =
     parse_dates (py_float example_env) ([''A,2012.5'' @ [CHR 0x0A]] @ []) \<and>
   main_params example_env (example_params []) =
     main_params (example_env\<lparr>open_lines := (\<lambda>path. Inr ([''A,2012.5'' @ [CHR 0x0A]] @ []))\<rparr>)
       (example_params [])"
proof -
  have h1: "take 2 (split_on CHR '','' (strip (''B,notadate'' @ [CHR 0x0A]))) = [''B'', ''notadate'']"
    by (simp add: strip_def is_space_def)
  have h2: "py_float example_env ''notadate'' = None"
    by (simp add: example_env_def example_float_def)
  have h3: "open_lines example_env (dates (example_params [])) =
     Inr ([''A,2012.5'' @ [CHR 0x0A]] @ (''B,notadate'' @ [CHR 0x0A]) # [])"
    by (simp add: example_env_def example_lines_def)
  show ?thesis
    using h1 h2 h3 malformed_date_line_is_skipped [OF h1 h2 h3] by blast
qed

subsection \<open>The skyline report\<close>



subsection \<open>Branch lengths\<close>



subsection \<open>The substitution model\<close>

text \<open>
  Claim C8: on every accepted command line \<^verbatim>\<open>infer_gtr\<close> is true, so the report
  of the model is always printed (it opens the output of every run that the engine
  returns from), and the engine is constructed with the model \<^verbatim>\<open>JC69\<close>.
\<close>

theorem infer_gtr_always_True:
  "infer_gtr (parse_args a t d opts) \<and>
   (report_model (parse_args a t d opts) myTree :: ('e, 'a, unit) stage) =
     ([Print (CHR 0x0A # ''Inferred GTR model:''), Print_gtr myTree, Print_date2dist myTree], Inr ()) \<and>
   arg_gtr (mk_treetime_args ds (parse_args a t d opts)) = ''JC69'' \<and>
   (setup_and_run (env :: ('e, 'a) env) (parse_args a t d opts) = (out, Inr (tc, myTree)) \<longrightarrow>
      take 3 (fst (main env a t d opts)) =
        [Print (CHR 0x0A # ''Inferred GTR model:''), Print_gtr myTree, Print_date2dist myTree])"
proof -
  have g: "infer_gtr (parse_args a t d opts)" by (rule parse_args_infer_gtr)
  have r: "(report_model (parse_args a t d opts) myTree :: ('e, 'a, unit) stage) =
     ([Print (CHR 0x0A # ''Inferred GTR model:''), Print_gtr myTree, Print_date2dist myTree], Inr ())"
    using g by (simp add: report_model_def emit_def)
  have o: "fst (setup_and_run env (parse_args a t d opts)) = []"
    by (rule setup_and_run_silent)
  have m: "setup_and_run env (parse_args a t d opts) = (out, Inr (tc, myTree)) \<Longrightarrow>
      take 3 (fst (main env a t d opts)) =
        [Print (CHR 0x0A # ''Inferred GTR model:''), Print_gtr myTree, Print_date2dist myTree]"
  proof -
    assume s: "setup_and_run env (parse_args a t d opts) = (out, Inr (tc, myTree))"
    with o have "out = []" by simp
    with s r show ?thesis
      by (simp add: main_def main_params_def and_then_Inr)
  qed
  show ?thesis using g r m by (simp add: mk_treetime_args_def)
qed

text \<open>The theorem at the example inputs.\<close>

theorem infer_gtr_always_True_witness:
  "setup_and_run example_env (parse_args ''data/x.fasta'' ''data/x.nwk'' ''data/d.csv'' []) =
     ([], Inr (TcNone, [mk_run_args TcNone (example_params [])])) \<and>
   take 3 (fst (main example_env ''data/x.fasta'' ''data/x.nwk'' ''data/d.csv'' [])) =
     [Print (CHR 0x0A # ''Inferred GTR model:''),
      Print_gtr [mk_run_args TcNone (example_params [])],
      Print_date2dist [mk_run_args TcNone (example_params [])]]"
proof -
  have tc: "parse_Tc (py_float example_env) (Tc (example_params [])) = TcNone"
    by (simp add: example_Tc_default parse_Tc_def example_env_def example_float_def lit_1e_5_def)
  have s: "setup_and_run example_env (parse_args ''data/x.fasta'' ''data/x.nwk'' ''data/d.csv'' []) =
     ([], Inr (TcNone, [mk_run_args TcNone (example_params [])]))"
    using setup_and_run_eq [OF example_open example_new tc]
    by (simp add: example_env_def example_params_def)
  show ?thesis
    using s infer_gtr_always_True [of "''data/x.fasta''" "''data/x.nwk''" "''data/d.csv''" "[]"
        "[mk_run_args TcNone (example_params [])]" undefined example_env "[]" TcNone]
    by simp
qed

subsection \<open>Small values of Tc\<close>

text \<open>
  Claim C9: a numeric value of \<^verbatim>\<open>Tc\<close> below \<^verbatim>\<open>1e-5\<close> becomes
  \<^verbatim>\<open>None\<close>, and the engine is run with \<^verbatim>\<open>Tc=None\<close>. Without the option the
  value is the default \<^verbatim>\<open>"0.0"\<close>, and 0.0 is below \<^verbatim>\<open>1e-5\<close>.
\<close>

theorem small_Tc_disables_coalescent:
  assumes "py_float env (Tc p) = Some v"
    and "float_lt v lit_1e_5"
    and "open_lines env (dates p) = Inr lines"
    and "new_TreeTime env (mk_treetime_args (parse_dates (py_float env) lines) p) = Inr myTree"
  shows "parse_Tc (py_float env) (Tc p) = TcNone \<and>
         setup_and_run env p =
           ([], case engine_run env myTree (mk_run_args TcNone p) of
                  Inl e \<Rightarrow> Inl e
                | Inr myTree' \<Rightarrow> Inr (TcNone, myTree')) \<and>
         run_Tc (mk_run_args TcNone p) = TcNone \<and>
         ((\<forall>s. Opt_Tc s \<notin> set opts) \<longrightarrow> Tc (parse_args a t d opts) = ''0.0'') \<and>
         float_lt (Fin 0) lit_1e_5"
proof -
  have tc: "parse_Tc (py_float env) (Tc p) = TcNone"
    using assms(1,2) by (simp add: parse_Tc_def)
  have "float_lt (Fin 0) lit_1e_5" by (simp add: lit_1e_5_def)
  moreover have "run_Tc (mk_run_args TcNone p) = TcNone" by (simp add: mk_run_args_def)
  ultimately show ?thesis using setup_and_run_eq [OF assms(3,4) tc] tc
    by (simp add: parse_args_Tc_default)
qed

text \<open>The theorem at the example inputs.\<close>

theorem small_Tc_disables_coalescent_witness:
  "py_float example_env (Tc (example_params [])) = Some (Fin 0) \<and>
   float_lt (Fin 0) lit_1e_5 \<and>
   open_lines example_env (dates (example_params [])) = Inr example_lines \<and>
   new_TreeTime example_env
     (mk_treetime_args (parse_dates (py_float example_env) example_lines) (example_params [])) = Inr [] \<and>
   parse_Tc (py_float example_env) (Tc (example_params [])) = TcNone \<and>
   setup_and_run example_env (example_params []) =
     ([], Inr (TcNone, [mk_run_args TcNone (example_params [])])) \<and>
   (\<forall>s. Opt_Tc s \<notin> set [Opt_plot]) \<and>
   Tc (parse_args ''data/x.fasta'' ''data/x.nwk'' ''data/d.csv'' [Opt_plot]) = ''0.0''"
proof -
  have h1: "py_float example_env (Tc (example_params [])) = Some (Fin 0)"
    by (simp add: example_Tc_default example_env_def example_float_def)
  have h2: "float_lt (Fin 0) lit_1e_5"
    by (simp add: lit_1e_5_def)
  note h3 = example_open [of "[]"]
  note h4 = example_new [of "parse_dates (py_float example_env) example_lines" "[]"]
  show ?thesis
    using h1 h2 h3 h4
      small_Tc_disables_coalescent [OF h1 h2 h3 h4, of "[Opt_plot]" "''data/x.fasta''"
        "''data/x.nwk''" "''data/d.csv''"]
    by (simp add: example_env_def)
qed

subsection \<open>The decoration pass\<close>

lemma decorate_node_root:
  "up n = None \<Longrightarrow> decorate_node bv k n = Inr (n, k)"
  by (simp add: decorate_node_def)

lemma decorate_node_fields:
  assumes "decorate_node bv k n = Inr (n', k')" and "up n \<noteq> None"
  shows "confidence n' = None"
    and "up n' = up n"
    and "clades n' = clades n"
    and "mutations n' = mutations n"
    and "node.more n' = node.more n"
    and "comment n' = (if mutations n \<noteq> [] then Some (mutations_comment (mutations n)) else comment n)"
    and "name n' = (if needs_truncation bv n
                    then map_option (\<lambda>nm. truncated_name nm k) (name n) else name n)"
  using assms
  by (auto simp: decorate_node_def Let_def set_comment_def needs_truncation_def is_terminal_def
      split: if_splits option.splits)

lemma decorate_node_counter:
  assumes "decorate_node bv k n = Inr (n', k')"
  shows "k' = k + (if needs_truncation bv n then 1 else 0)"
  using assms
  by (auto simp: decorate_node_def Let_def needs_truncation_def is_terminal_def
      split: if_splits option.splits)

lemma decorate_node_total:
  assumes "up n \<noteq> None \<and> is_terminal n \<longrightarrow> name n \<noteq> None"
  shows "\<exists>n' k'. decorate_node bv k n = Inr (n', k')"
  using assms
  by (auto simp: decorate_node_def Let_def is_terminal_def split: option.splits)

lemma decorate_loop_length:
  "decorate_loop bv k ns = Inr ns' \<Longrightarrow> length ns' = length ns"
proof (induction ns arbitrary: k ns')
  case Nil
  then show ?case by simp
next
  case (Cons n ns)
  then show ?case
    by (auto split: sum.splits prod.splits)
qed

lemma decorate_loop_nth:
  assumes "decorate_loop bv k ns = Inr ns'" and "i < length ns"
  shows "decorate_node bv (k + truncated_before bv ns i) (ns ! i) =
           Inr (ns' ! i, k + truncated_before bv ns (Suc i))"
  using assms
proof (induction ns arbitrary: k ns' i)
  case Nil
  then show ?case by simp
next
  case (Cons n ns)
  from Cons.prems(1) obtain n' k' ms where
    step: "decorate_node bv k n = Inr (n', k')" and
    rest: "decorate_loop bv k' ns = Inr ms" and
    res: "ns' = n' # ms"
    by (auto split: sum.splits prod.splits)
  have k': "k' = k + (if needs_truncation bv n then 1 else 0)"
    using step by (rule decorate_node_counter)
  show ?case
  proof (cases i)
    case 0
    then show ?thesis using step res k' by (simp add: truncated_before_def)
  next
    case (Suc j)
    with Cons.prems(2) have j: "j < length ns" by simp
    from Cons.IH [OF rest j] show ?thesis
      using Suc res k' by (cases "needs_truncation bv n") (simp_all add: truncated_before_def)
  qed
qed

lemma decorate_loop_total:
  assumes "\<forall>n \<in> set ns. up n \<noteq> None \<and> is_terminal n \<longrightarrow> name n \<noteq> None"
  shows "\<exists>ns'. decorate_loop bv k ns = Inr ns'"
  using assms
proof (induction ns arbitrary: k)
  case Nil
  then show ?case by simp
next
  case (Cons n ns)
  from Cons.prems have "up n \<noteq> None \<and> is_terminal n \<longrightarrow> name n \<noteq> None" by simp
  then obtain n' k' where step: "decorate_node bv k n = Inr (n', k')"
    using decorate_node_total by blast
  from Cons.prems have "\<forall>n \<in> set ns. up n \<noteq> None \<and> is_terminal n \<longrightarrow> name n \<noteq> None" by simp
  then obtain ms where "decorate_loop bv k' ns = Inr ms"
    using Cons.IH by blast
  with step show ?case by simp
qed

text \<open>
  Claim C3 says that the names of the leaves are left intact and that the truncation of
  long names is not reproduced. With the library at version 1.68 the leaf of the example
  with a name of 43 characters is written with its first 35 characters and a counter.
\<close>

theorem leaf_name_truncation_counterexample:
  "is_terminal (example_nodes ! 2) \<and>
   name (example_nodes ! 2) = Some ''A_Brisbane_10_2007_H3N2_segment4_isolate_X1'' \<and>
   bioversion example_env = ''1.68'' \<and>
   map_sum id (map name) (decorate_tree (bioversion example_env) example_nodes) =
     Inr [None, Some ''A'', Some ''A_Brisbane_10_2007_H3N2_segment4_is_000''] \<and>
   last (fst (main example_env ''data/x.fasta'' ''data/x.nwk'' ''data/d.csv'' [])) =
     Write_nexus
       [\<lparr> up = None, clades = [1, 2], name = None, confidence = Some (Fin 1),
          comment = None, mutations = [] \<rparr>,
        \<lparr> up = Some 0, clades = [], name = Some ''A'', confidence = None,
          comment = Some ''&mutations=\"A12G_C7T\"'',
          mutations = [(''A'', 12, ''G''), (''C'', 7, ''T'')] \<rparr>,
        \<lparr> up = Some 0, clades = [], name = Some ''A_Brisbane_10_2007_H3N2_segment4_is_000'',
          confidence = None, comment = Some ''old'', mutations = [] \<rparr>]
       ''x_timetree.nexus''"
  by code_simp

text \<open>
  Claim C3, as the code has it (lines 127 to 129): when the pass completes, the name of a
  node is left intact unless the node has a parent, is a leaf with a name longer than 40
  characters and the version of the library is below \<^verbatim>\<open>"1.69"\<close> as a string; the name
  is then its first 35 characters, an underscore and the number of the leaves cut before
  it, on three digits. With a library that is not below \<^verbatim>\<open>"1.69"\<close> every name is
  kept.
\<close>

theorem leaf_names_kept_unless_truncated:
  assumes "decorate_tree bv ns = Inr ns'" and "i < length ns"
  shows "name (ns' ! i) =
           (if needs_truncation bv (ns ! i)
            then map_option (\<lambda>nm. truncated_name nm (truncated_before bv ns i)) (name (ns ! i))
            else name (ns ! i)) \<and>
         (\<not> str_lt bv ''1.69'' \<longrightarrow> name (ns' ! i) = name (ns ! i))"
proof -
  from assms have step:
    "decorate_node bv (0 + truncated_before bv ns i) (ns ! i) =
       Inr (ns' ! i, 0 + truncated_before bv ns (Suc i))"
    unfolding decorate_tree_def by (rule decorate_loop_nth)
  have nm: "name (ns' ! i) =
           (if needs_truncation bv (ns ! i)
            then map_option (\<lambda>nm. truncated_name nm (truncated_before bv ns i)) (name (ns ! i))
            else name (ns ! i))"
  proof (cases "up (ns ! i) = None")
    case True
    then have "ns' ! i = ns ! i"
      using step by (simp add: decorate_node_root)
    then show ?thesis using True by (simp add: needs_truncation_def)
  next
    case False
    from decorate_node_fields(7) [OF step False] show ?thesis by simp
  qed
  then show ?thesis by (simp add: needs_truncation_def)
qed

text \<open>The theorem at the example tree.\<close>

theorem leaf_names_kept_unless_truncated_witness:
  "decorate_tree ''1.68'' example_nodes =
     Inr [\<lparr> up = None, clades = [1, 2], name = None, confidence = Some (Fin 1),
            comment = None, mutations = [] \<rparr>,
          \<lparr> up = Some 0, clades = [], name = Some ''A'', confidence = None,
            comment = Some ''&mutations=\"A12G_C7T\"'',
            mutations = [(''A'', 12, ''G''), (''C'', 7, ''T'')] \<rparr>,
          \<lparr> up = Some 0, clades = [], name = Some ''A_Brisbane_10_2007_H3N2_segment4_is_000'',
            confidence = None, comment = Some ''old'', mutations = [] \<rparr>] \<and>
   (1::nat) < length example_nodes \<and>
   \<not> needs_truncation ''1.68'' (example_nodes ! 1) \<and>
   name (example_nodes ! 1) = Some ''A''"
proof -
  have h1: "decorate_tree ''1.68'' example_nodes =
     Inr [\<lparr> up = None, clades = [1, 2], name = None, confidence = Some (Fin 1),
            comment = None, mutations = [] \<rparr>,
          \<lparr> up = Some 0, clades = [], name = Some ''A'', confidence = None,
            comment = Some ''&mutations=\"A12G_C7T\"'',
            mutations = [(''A'', 12, ''G''), (''C'', 7, ''T'')] \<rparr>,
          \<lparr> up = Some 0, clades = [], name = Some ''A_Brisbane_10_2007_H3N2_segment4_is_000'',
            confidence = None, comment = Some ''old'', mutations = [] \<rparr>]"
    by code_simp
  have h2: "(1::nat) < length example_nodes"
    by (simp add: example_nodes_def)
  have n: "\<not> needs_truncation ''1.68'' (example_nodes ! 1)"
    by (simp add: needs_truncation_def example_nodes_def)
  show ?thesis
    using h1 h2 n leaf_names_kept_unless_truncated [OF h1 h2] by simp
qed

text \<open>
  Claim C10 says that the pass modifies no field of a node other than its confidence
  and its comment. With the library at version 1.50 the pass also replaces the name of
  the long-named leaf of the example.
\<close>

theorem decoration_changes_name_counterexample:
  "decorate_tree ''1.50'' example_nodes =
     Inr [\<lparr> up = None, clades = [1, 2], name = None, confidence = Some (Fin 1),
            comment = None, mutations = [] \<rparr>,
          \<lparr> up = Some 0, clades = [], name = Some ''A'', confidence = None,
            comment = Some ''&mutations=\"A12G_C7T\"'',
            mutations = [(''A'', 12, ''G''), (''C'', 7, ''T'')] \<rparr>,
          \<lparr> up = Some 0, clades = [], name = Some ''A_Brisbane_10_2007_H3N2_segment4_is_000'',
            confidence = None, comment = Some ''old'', mutations = [] \<rparr>] \<and>
   up (example_nodes ! 2) = Some 0 \<and>
   name (example_nodes ! 2) = Some ''A_Brisbane_10_2007_H3N2_segment4_isolate_X1''"
  by code_simp

text \<open>
  Claim C10, as the code has it (lines 121 to 131): when every leaf that has a parent
  has a name, the pass completes; a node without a parent is left as it is; a node with
  a parent has its confidence set to \<^verbatim>\<open>None\<close>, receives the comment of its mutations
  exactly when it has mutations (its comment is kept otherwise), keeps its parent, its
  children, its mutations and every other attribute, and keeps its name unless it is
  one of the leaves whose name is cut.
\<close>

theorem decoration_pass:
  assumes "\<forall>n \<in> set ns. up n \<noteq> None \<and> is_terminal n \<longrightarrow> name n \<noteq> None"
  shows "\<exists>ns'. decorate_tree bv ns = Inr ns' \<and> length ns' = length ns \<and>
           (\<forall>i < length ns.
              (up (ns ! i) = None \<longrightarrow> ns' ! i = ns ! i) \<and>
              (up (ns ! i) \<noteq> None \<longrightarrow>
                 confidence (ns' ! i) = None \<and>
                 comment (ns' ! i) =
                   (if mutations (ns ! i) \<noteq> []
                    then Some (mutations_comment (mutations (ns ! i)))
                    else comment (ns ! i)) \<and>
                 up (ns' ! i) = up (ns ! i) \<and>
                 clades (ns' ! i) = clades (ns ! i) \<and>
                 mutations (ns' ! i) = mutations (ns ! i) \<and>
                 node.more (ns' ! i) = node.more (ns ! i) \<and>
                 (\<not> needs_truncation bv (ns ! i) \<longrightarrow> name (ns' ! i) = name (ns ! i))))"
proof -
  from assms obtain ns' where res: "decorate_loop bv 0 ns = Inr ns'"
    using decorate_loop_total by blast
  have len: "length ns' = length ns"
    using res by (rule decorate_loop_length)
  have each: "(up (ns ! i) = None \<longrightarrow> ns' ! i = ns ! i) \<and>
              (up (ns ! i) \<noteq> None \<longrightarrow>
                 confidence (ns' ! i) = None \<and>
                 comment (ns' ! i) =
                   (if mutations (ns ! i) \<noteq> []
                    then Some (mutations_comment (mutations (ns ! i)))
                    else comment (ns ! i)) \<and>
                 up (ns' ! i) = up (ns ! i) \<and>
                 clades (ns' ! i) = clades (ns ! i) \<and>
                 mutations (ns' ! i) = mutations (ns ! i) \<and>
                 node.more (ns' ! i) = node.more (ns ! i) \<and>
                 (\<not> needs_truncation bv (ns ! i) \<longrightarrow> name (ns' ! i) = name (ns ! i)))"
    if i: "i < length ns" for i
  proof -
    from res i have step:
      "decorate_node bv (0 + truncated_before bv ns i) (ns ! i) =
         Inr (ns' ! i, 0 + truncated_before bv ns (Suc i))"
      by (rule decorate_loop_nth)
    show ?thesis
    proof (cases "up (ns ! i) = None")
      case True
      then show ?thesis using step by (simp add: decorate_node_root)
    next
      case False
      note f = decorate_node_fields [OF step False]
      have root: "up (ns ! i) = None \<longrightarrow> ns' ! i = ns ! i"
        using False by blast
      have nm: "\<not> needs_truncation bv (ns ! i) \<longrightarrow> name (ns' ! i) = name (ns ! i)"
        using f(7) by simp
      show ?thesis using root nm f(1) f(2) f(3) f(4) f(5) f(6) by blast
    qed
  qed
  show ?thesis
    using res len each unfolding decorate_tree_def by blast
qed

text \<open>The theorem at the example tree.\<close>

theorem decoration_pass_witness:
  "name (example_nodes ! 1) = Some ''A'' \<and>
   name (example_nodes ! 2) = Some ''A_Brisbane_10_2007_H3N2_segment4_isolate_X1'' \<and>
   (\<exists>ns'. decorate_tree ''1.70'' example_nodes = Inr ns' \<and> length ns' = 3 \<and>
      ns' ! 0 = example_nodes ! 0 \<and>
      confidence (ns' ! 1) = None \<and> comment (ns' ! 1) = Some ''&mutations=\"A12G_C7T\"'' \<and>
      confidence (ns' ! 2) = None \<and> comment (ns' ! 2) = Some ''old'' \<and>
      name (ns' ! 2) = Some ''A_Brisbane_10_2007_H3N2_segment4_isolate_X1'')"
proof -
  have h: "\<forall>n \<in> set example_nodes. up n \<noteq> None \<and> is_terminal n \<longrightarrow> name n \<noteq> None"
    by (simp add: example_nodes_def)
  have nt: "\<not> needs_truncation ''1.70'' (example_nodes ! 2)"
    by (simp add: needs_truncation_def)
  have l: "length example_nodes = 3"
    by (simp add: example_nodes_def)
  have facts:
    "up (example_nodes ! 0) = None" "up (example_nodes ! 1) \<noteq> None" "up (example_nodes ! 2) \<noteq> None"
    "mutations (example_nodes ! 1) = [(''A'', 12, ''G''), (''C'', 7, ''T'')]"
    "mutations (example_nodes ! 2) = []" "comment (example_nodes ! 2) = Some ''old''"
    "name (example_nodes ! 2) = Some ''A_Brisbane_10_2007_H3N2_segment4_isolate_X1''"
    by (simp_all add: example_nodes_def long_name_def)
  have mc: "mutations_comment [(''A'', 12, ''G''), (''C'', 7, ''T'')] = ''&mutations=\"A12G_C7T\"''"
    by code_simp
  from decoration_pass [OF h, of "''1.70''"] obtain ns' where
    r: "decorate_tree ''1.70'' example_nodes = Inr ns'" and
    len: "length ns' = length example_nodes" and
    all: "\<forall>i < length example_nodes.
              (up (example_nodes ! i) = None \<longrightarrow> ns' ! i = example_nodes ! i) \<and>
              (up (example_nodes ! i) \<noteq> None \<longrightarrow>
                 confidence (ns' ! i) = None \<and>
                 comment (ns' ! i) =
                   (if mutations (example_nodes ! i) \<noteq> []
                    then Some (mutations_comment (mutations (example_nodes ! i)))
                    else comment (example_nodes ! i)) \<and>
                 up (ns' ! i) = up (example_nodes ! i) \<and>
                 clades (ns' ! i) = clades (example_nodes ! i) \<and>
                 mutations (ns' ! i) = mutations (example_nodes ! i) \<and>
                 node.more (ns' ! i) = node.more (example_nodes ! i) \<and>
                 (\<not> needs_truncation ''1.70'' (example_nodes ! i) \<longrightarrow>
                    name (ns' ! i) = name (example_nodes ! i)))"
    by blast
  from all l have a0: "ns' ! 0 = example_nodes ! 0" using facts(1) by simp
  from all l facts(2) have a1:
    "confidence (ns' ! 1) = None \<and>
     comment (ns' ! 1) = Some (mutations_comment (mutations (example_nodes ! 1)))"
    using facts(4) by simp
  from all l facts(3) nt have a2:
    "confidence (ns' ! 2) = None \<and> comment (ns' ! 2) = comment (example_nodes ! 2) \<and>
     name (ns' ! 2) = name (example_nodes ! 2)"
    using facts(5) by simp
  have n1: "name (example_nodes ! 1) = Some ''A''"
    by (simp add: example_nodes_def)
  show ?thesis
    using n1 r len l a0 a1 a2 facts(4) facts(6) facts(7) mc by auto
qed

subsection \<open>The outer iterations of the engine\<close>

lemma outer_loop_bounds:
  "0 < left \<Longrightarrow>
     n < iterations (outer_loop iteration converged left n st) \<and>
     iterations (outer_loop iteration converged left n st) \<le> n + left"
proof (induction left arbitrary: n st)
  case 0
  then show ?case by simp
next
  case (Suc left)
  show ?case
  proof (cases "left = 0")
    case True
    then show ?thesis by (simp add: Let_def)
  next
    case False
    then have "0 < left" by simp
    from Suc.IH [OF this, of "Suc n" "iteration st"] show ?thesis
      by (auto simp: Let_def)
  qed
qed

lemma outer_loop_state:
  "final_state (outer_loop iteration converged left n st) =
     (iteration ^^ (iterations (outer_loop iteration converged left n st) - n)) st"
proof (induction left arbitrary: n st)
  case 0
  then show ?case by simp
next
  case (Suc left)
  show ?case
  proof (cases "left = 0 \<or> converged st (iteration st)")
    case True
    then show ?thesis by (auto simp: Let_def)
  next
    case False
    then have l: "0 < left" by simp
    have b: "Suc n < iterations (outer_loop iteration converged left (Suc n) (iteration st))"
      by (simp add: outer_loop_bounds [OF l])
    then have "iterations (outer_loop iteration converged left (Suc n) (iteration st)) - n =
       Suc (iterations (outer_loop iteration converged left (Suc n) (iteration st)) - Suc n)"
      by simp
    with False Suc.IH [of "Suc n" "iteration st"] show ?thesis
      by (simp add: Let_def funpow_swap1)
  qed
qed

lemma outer_loop_unconverged:
  "status (outer_loop iteration converged left n st) = MAX_ITER_REACHED \<Longrightarrow>
     iterations (outer_loop iteration converged left n st) = n + left"
proof (induction left arbitrary: n st)
  case 0
  then show ?case by simp
next
  case (Suc left)
  then show ?case
    by (cases "left = 0") (auto simp: Let_def split: if_splits)
qed

text \<open>
  Claim C4: for a value of \<^verbatim>\<open>max_iter\<close> of at least one, the run makes at least one and
  at most \<^verbatim>\<open>max_iter\<close> outer iterations and returns the state reached after them;
  when it reports that the cap was reached it has made exactly \<^verbatim>\<open>max_iter\<close>
  iterations; with \<^verbatim>\<open>max_iter=1\<close> it makes exactly one. The script hands its
  \<^verbatim>\<open>max_iter\<close> to the run as it is, and the default is 2.
\<close>

theorem run_stops_at_max_iter:
  assumes "1 \<le> m"
  shows "1 \<le> iterations (engine_iterate iteration converged m st) \<and>
         int (iterations (engine_iterate iteration converged m st)) \<le> m \<and>
         final_state (engine_iterate iteration converged m st) =
           (iteration ^^ iterations (engine_iterate iteration converged m st)) st \<and>
         (status (engine_iterate iteration converged m st) = MAX_ITER_REACHED \<longrightarrow>
            int (iterations (engine_iterate iteration converged m st)) = m) \<and>
         (m = 1 \<longrightarrow> iterations (engine_iterate iteration converged m st) = 1) \<and>
         run_max_iter (mk_run_args tc p) = max_iter p \<and>
         ((\<forall>n. Opt_max_iter n \<notin> set opts) \<longrightarrow> max_iter (parse_args a t d opts) = 2)"
proof -
  from assms have pos: "0 < nat m" by simp
  note b = outer_loop_bounds [OF pos, of 0 iteration converged st]
  have s: "final_state (engine_iterate iteration converged m st) =
           (iteration ^^ iterations (engine_iterate iteration converged m st)) st"
    using outer_loop_state [of iteration converged "nat m" 0 st] by (simp add: engine_iterate_def)
  have u: "status (engine_iterate iteration converged m st) = MAX_ITER_REACHED \<longrightarrow>
            int (iterations (engine_iterate iteration converged m st)) = m"
    using outer_loop_unconverged [of iteration converged "nat m" 0 st] assms
    by (auto simp: engine_iterate_def)
  have one: "m = 1 \<longrightarrow> iterations (engine_iterate iteration converged m st) = 1"
    by (simp add: engine_iterate_def Let_def)
  have w: "run_max_iter (mk_run_args tc p) = max_iter p"
    by (simp add: mk_run_args_def)
  show ?thesis
    using b s u one w assms by (auto simp: engine_iterate_def parse_args_max_iter_default)
qed

text \<open>The theorem at the default cap, for an iteration that never converges.\<close>

theorem run_stops_at_max_iter_witness:
  "(1::int) \<le> 2 \<and>
   iterations (engine_iterate (\<lambda>x. x + 1) (\<lambda>x y. False) 2 (0::int)) = 2 \<and>
   status (engine_iterate (\<lambda>x. x + 1) (\<lambda>x y. False) 2 (0::int)) = MAX_ITER_REACHED \<and>
   final_state (engine_iterate (\<lambda>x. x + 1) (\<lambda>x y. False) 2 (0::int)) = 2 \<and>
   (\<forall>n. Opt_max_iter n \<notin> set [Opt_plot]) \<and>
   max_iter (parse_args ''data/x.fasta'' ''data/x.nwk'' ''data/d.csv'' [Opt_plot]) = 2"
proof -
  have h: "(1::int) \<le> 2" by simp
  have e: "engine_iterate (\<lambda>x. x + 1) (\<lambda>x y. False) 2 (0::int) =
      \<lparr> status = MAX_ITER_REACHED, iterations = 2, final_state = 2 \<rparr>"
    by (simp add: engine_iterate_def numeral_2_eq_2 Let_def)
  show ?thesis
    using h run_stops_at_max_iter [OF h, of "\<lambda>x. x + 1" "\<lambda>x y. False" "0::int" TcNone
        "example_params []" "[Opt_plot]" "''data/x.fasta''" "''data/x.nwk''" "''data/d.csv''"]
    by (simp add: e)
qed

subsection \<open>Polytomies\<close>






end
